theory Spec2Isabelle
  imports Complex_Main
begin

section \<open>The risk engine of RiskMetrics.py\<close>

text \<open>
  A shallow embedding of the class \<open>RiskMetrics\<close> (src/RiskMetrics.py).

  Floats are idealised as real numbers: rounding, infinities and NaN are not represented.
  Where the code would go on with a non-finite float (a division by zero, the mean of an
  empty array) the model stops with \<open>NonFinite\<close>; the Python code raises nothing there.
  Every other error value is an exception that the Python code raises.
\<close>

datatype pyerror =
  KeyError | IndexError | TypeError | ValueError | ZeroDivisionError | NonFinite

text \<open>Statements in sequence: the first error ends the run.\<close>

definition and_then :: "pyerror + 'a \<Rightarrow> ('a \<Rightarrow> pyerror + 'b) \<Rightarrow> pyerror + 'b" where
  "and_then m f = (case m of Inl e \<Rightarrow> Inl e | Inr v \<Rightarrow> f v)"

subsection \<open>The table handed to the constructor\<close>

text \<open>
  A data frame is a list of named columns of equal length. \<open>len(df)\<close> is the number of
  rows, \<open>df[c]\<close> raises KeyError for an unknown column, \<open>df.iloc[:p]\<close> keeps the rows
  before \<open>p\<close> (a negative \<open>p\<close> counts from the end, as every Python slice does).
\<close>

type_synonym dataframe = "(string \<times> real list) list"

definition df_len :: "dataframe \<Rightarrow> nat" where
  "df_len d = (case d of [] \<Rightarrow> 0 | (c, xs) # rest \<Rightarrow> length xs)"

definition df_getitem :: "dataframe \<Rightarrow> string \<Rightarrow> pyerror + real list" where
  "df_getitem d c = (case map_of d c of None \<Rightarrow> Inl KeyError | Some xs \<Rightarrow> Inr xs)"

definition slice_to :: "'a list \<Rightarrow> int \<Rightarrow> 'a list" where
  "slice_to xs p = (if 0 \<le> p then take (nat p) xs else take (nat (int (length xs) + p)) xs)"

definition df_iloc_to :: "dataframe \<Rightarrow> int \<Rightarrow> dataframe" where
  "df_iloc_to d p = map (\<lambda>(c, xs). (c, slice_to xs p)) d"

subsection \<open>The object\<close>

record RiskMetrics =
  pool_size :: int
  df :: dataframe
  notional :: real
  liquidation_series :: "real list"
  margin_series :: "real list"
  pnl_series :: "real list"
  liquidation :: "real list"
  insolvency :: "real list"

text \<open>\<open>self.z_scores\<close>: assigned once by the constructor, never changed afterwards.\<close>

definition z_scores :: "int \<rightharpoonup> real" where
  "z_scores = [95 \<mapsto> 1.96, 99 \<mapsto> 2.58]"

text \<open>
  The methods \<open>liquidation\<close> and \<open>insolvency\<close>. The constructor replaces both by their
  results, so the record fields carry the names and the methods are suffixed.
  \<open>margin_series.iloc[0]\<close> raises IndexError on an empty series.
\<close>

definition liquidation_method :: "RiskMetrics \<Rightarrow> pyerror + real list" where
  "liquidation_method st =
     (case margin_series st of
        [] \<Rightarrow> Inl IndexError
      | m0 # ms \<Rightarrow>
          if m0 = 0 then Inl NonFinite
          else Inr (map (\<lambda>l. (m0 - l) / m0) (liquidation_series st)))"

definition insolvency_method :: "RiskMetrics \<Rightarrow> pyerror + real list" where
  "insolvency_method st =
     (case margin_series st of
        [] \<Rightarrow> Inl IndexError
      | m0 # ms \<Rightarrow>
          if m0 = 0 then Inl NonFinite
          else Inr (map (\<lambda>p. (p + m0) / m0) (pnl_series st)))"

text \<open>
  \<open>__init__\<close>. The three series are read from the argument \<open>df\<close>, not from the
  truncated \<open>self.df\<close>.
\<close>

definition init ::
  "dataframe \<Rightarrow> real \<Rightarrow> string \<Rightarrow> string \<Rightarrow> string \<Rightarrow> int option \<Rightarrow> pyerror + RiskMetrics" where
  "init d n lc mc pc ps =
     (let (p, d') = (case ps of None \<Rightarrow> (int (df_len d), d) | Some k \<Rightarrow> (k, df_iloc_to d k))
      in and_then (df_getitem d lc) (\<lambda>ls.
         and_then (df_getitem d mc) (\<lambda>ms.
         and_then (df_getitem d pc) (\<lambda>pn.
         let st0 = \<lparr>pool_size = p, df = d', notional = n, liquidation_series = ls,
                    margin_series = ms, pnl_series = pn, liquidation = [], insolvency = []\<rparr>
         in and_then (liquidation_method st0) (\<lambda>lq.
            and_then (insolvency_method (st0\<lparr>liquidation := lq\<rparr>)) (\<lambda>ins.
            Inr (st0\<lparr>liquidation := lq, insolvency := ins\<rparr>)))))))"

subsection \<open>The libraries\<close>

text \<open>
  The code draws from two random sources and calls two routines of the \<open>arch\<close> package.
  None of them is part of the repository; they are parameters of the model.
  \<^item> \<open>py_randint g a b\<close> and \<open>py_random g\<close> are \<open>random.randint(a, b)\<close> and
    \<open>random.random()\<close> on the state \<open>g\<close> of Python's global generator;
  \<^item> \<open>RandomState seed\<close> is \<open>np.random.RandomState(seed)\<close>, and \<open>randint r n\<close> draws one
    index below \<open>n\<close> from the generator state \<open>r\<close>;
  \<^item> \<open>optimal_block_length x\<close> is the circular entry of \<open>arch\<close>'s estimate for the array
    \<open>x\<close>; \<open>Inl\<close> stands for an exception or an estimate that is not a finite number.
\<close>

record ('g, 'r) libs =
  py_randint :: "'g \<Rightarrow> int \<Rightarrow> int \<Rightarrow> int \<times> 'g"
  py_random :: "'g \<Rightarrow> real \<times> 'g"
  RandomState :: "nat \<Rightarrow> 'r"
  randint :: "'r \<Rightarrow> nat \<Rightarrow> nat \<times> 'r"
  optimal_block_length :: "real list \<Rightarrow> pyerror + real"

subsection \<open>Jitter\<close>

text \<open>\<open>10**exp\<close> for an integer \<open>exp\<close>: a float as soon as the exponent is negative.\<close>

definition pow10 :: "int \<Rightarrow> real" where
  "pow10 e = (if 0 \<le> e then 10 ^ nat e else 1 / 10 ^ nat (- e))"

definition get_random :: "('g, 'r) libs \<Rightarrow> 'g \<Rightarrow> real \<times> 'g" where
  "get_random L g =
     (let (exp, g1) = py_randint L g (-5) (-2);
          (u, g2) = py_random L g1;
          significand = 0.9 * u + 0.1
      in (significand * pow10 exp, g2))"

text \<open>\<open>[l + self.get_random() for l in xs]\<close>: one call per element, left to right.\<close>

fun jitter :: "('g, 'r) libs \<Rightarrow> real list \<Rightarrow> 'g \<Rightarrow> real list \<times> 'g" where
  "jitter L [] g = ([], g)"
| "jitter L (l # ls) g =
     (let (r, g1) = get_random L g;
          (rest, g2) = jitter L ls g1
      in ((l + r) # rest, g2))"

subsection \<open>Block length\<close>

text \<open>Python's \<open>int(x)\<close> on a float truncates towards zero.\<close>

definition py_int :: "real \<Rightarrow> int" where
  "py_int x = (if 0 \<le> x then \<lfloor>x\<rfloor> else \<lceil>x\<rceil>)"

text \<open>The block size handed to the bootstrapper: \<open>int(time_delta) + 1\<close>.\<close>

definition block_size :: "real \<Rightarrow> int" where
  "block_size time_delta = py_int time_delta + 1"

subsection \<open>Circular block bootstrap\<close>

text \<open>
  Modelled from the spec: \<open>CircularBlockBootstrap\<close> of the \<open>arch\<close> package is not under
  src/. One replicate of a series \<open>x\<close> of length \<open>n\<close> with block length \<open>B\<close>: draw a start
  index below \<open>n\<close>, append the block of \<open>B\<close> samples read circularly from there, and repeat
  until the replicate has \<open>n\<close> samples; what overshoots is cut off.
\<close>

definition block :: "real list \<Rightarrow> nat \<Rightarrow> nat \<Rightarrow> real list" where
  "block x B s = map (\<lambda>j. x ! ((s + j) mod length x)) [0..<B]"

function grow :: "('g, 'r) libs \<Rightarrow> real list \<Rightarrow> nat \<Rightarrow> real list \<Rightarrow> 'r \<Rightarrow> real list \<times> 'r" where
  "grow L x B rep r =
     (if length rep < length x \<and> 0 < B
      then (case randint L r (length x) of (s, r1) \<Rightarrow> grow L x B (rep @ block x B s) r1)
      else (take (length x) rep, r))"
  by pat_completeness auto
termination
  by (relation "measure (\<lambda>(L, x, B, rep, r). length x - length rep)") (auto simp: block_def)

declare grow.simps [simp del]

text \<open>
  The constructor takes any integer as block size. The size is used when a replicate is
  built: the number of blocks is a quotient by it, so the size zero raises
  ZeroDivisionError, and for a negative size the number of blocks is negative, which
  numpy's \<open>randint\<close> refuses with ValueError.
\<close>

definition resample :: "('g, 'r) libs \<Rightarrow> int \<Rightarrow> real list \<Rightarrow> 'r \<Rightarrow> pyerror + (real list \<times> 'r)" where
  "resample L B x r =
     (if B = 0 then Inl ZeroDivisionError
      else if B < 0 then Inl ValueError
      else Inr (grow L x (nat B) [] r))"

text \<open>\<open>bootstrap(N)\<close>: the replicates are built one after the other from the same generator.\<close>

fun bootstrap ::
  "('g, 'r) libs \<Rightarrow> int \<Rightarrow> real list \<Rightarrow> nat \<Rightarrow> 'r \<Rightarrow> pyerror + (real list list \<times> 'r)" where
  "bootstrap L B x 0 r = Inr ([], r)"
| "bootstrap L B x (Suc n) r =
     and_then (resample L B x r) (\<lambda>(rep, r1).
     and_then (bootstrap L B x n r1) (\<lambda>(rest, r2).
     Inr (rep # rest, r2)))"

subsection \<open>Replicates\<close>

text \<open>
  \<open>generate_replicates\<close>. The series hold finite values only, so \<open>dropna\<close> has nothing to
  drop and leaves the object as it is. The two bootstrappers share the generator \<open>rs\<close>:
  the list of liquidation replicates is complete before the first insolvency replicate
  is drawn.
\<close>

definition generate_replicates ::
  "('g, 'r) libs \<Rightarrow> RiskMetrics \<Rightarrow> nat \<Rightarrow> 'g
     \<Rightarrow> pyerror + ((real list list \<times> real list list) \<times> 'g)" where
  "generate_replicates L st N_replicates g =
     (let rs = RandomState L 42;
          (liq, g1) = jitter L (liquidation st) g;
          (ins, g2) = jitter L (insolvency st) g1
      in and_then (optimal_block_length L liq) (\<lambda>time_delta_l.
         and_then (optimal_block_length L ins) (\<lambda>time_delta_i.
         and_then (bootstrap L (block_size time_delta_l) liq N_replicates rs) (\<lambda>(l_rep, rs1).
         and_then (bootstrap L (block_size time_delta_i) ins N_replicates rs1) (\<lambda>(i_rep, rs2).
         Inr ((l_rep, i_rep), g2))))))"

subsection \<open>Value at risk\<close>

text \<open>\<open>mean()\<close> and \<open>std()\<close> of numpy (population standard deviation); NaN on an empty array.\<close>

definition mean :: "real list \<Rightarrow> pyerror + real" where
  "mean xs = (if xs = [] then Inl NonFinite else Inr (sum_list xs / real (length xs)))"

definition std :: "real list \<Rightarrow> pyerror + real" where
  "std xs =
     (if xs = [] then Inl NonFinite
      else let mu = sum_list xs / real (length xs)
           in Inr (sqrt (sum_list (map (\<lambda>x. (x - mu)\<^sup>2) xs) / real (length xs))))"

fun means :: "real list list \<Rightarrow> pyerror + real list" where
  "means [] = Inr []"
| "means (l # ls) = and_then (mean l) (\<lambda>m. and_then (means ls) (\<lambda>ms. Inr (m # ms)))"

definition lvar_and_ivar ::
  "('g, 'r) libs \<Rightarrow> RiskMetrics \<Rightarrow> int \<Rightarrow> real list list option \<Rightarrow> real list list option \<Rightarrow> 'g
     \<Rightarrow> pyerror + ((real \<times> real) \<times> 'g)" where
  "lvar_and_ivar L st alpha l_rep i_rep g =
     and_then (case z_scores alpha of None \<Rightarrow> Inl KeyError | Some z \<Rightarrow> Inr z) (\<lambda>z_score.
     and_then (case (l_rep, i_rep) of
                 (Some lr, Some ir) \<Rightarrow> Inr ((lr, ir), g)
               | _ \<Rightarrow> generate_replicates L st 100 g) (\<lambda>((lr, ir), g').
     and_then (means lr) (\<lambda>l_dist.
     and_then (means ir) (\<lambda>i_dist.
     and_then (mean l_dist) (\<lambda>l_mu.
     and_then (mean i_dist) (\<lambda>i_mu.
     and_then (std l_dist) (\<lambda>l_sig.
     and_then (std i_dist) (\<lambda>i_sig.
     Inr ((- z_score * l_sig + l_mu, - z_score * i_sig + i_mu), g')))))))))"

subsection \<open>Leverage\<close>

text \<open>
  \<open>iloc[0]\<close> and \<open>iloc[-1]\<close> raise IndexError on an empty series; a zero denominator
  gives a non-finite float.
\<close>

definition leverages ::
  "('g, 'r) libs \<Rightarrow> RiskMetrics \<Rightarrow> real option \<Rightarrow> real option \<Rightarrow> 'g
     \<Rightarrow> pyerror + ((real \<times> real) \<times> 'g)" where
  "leverages L st l_var i_var g =
     and_then (case (l_var, i_var) of
                 (Some lv, Some iv) \<Rightarrow> Inr ((lv, iv), g)
               | _ \<Rightarrow> lvar_and_ivar L st 95 None None g) (\<lambda>((lv, iv), g').
     and_then (case liquidation_series st of [] \<Rightarrow> Inl IndexError | l0 # ls \<Rightarrow> Inr l0) (\<lambda>l0.
     and_then (if pnl_series st = [] then Inl IndexError else Inr (last (pnl_series st))) (\<lambda>pN.
     if l0 = 0 \<or> pN = 0 then Inl NonFinite
     else Inr ((notional st * (1 - lv) / l0, notional st * (iv - 1) / pN), g'))))"

text \<open>
  A call of \<open>leverages\<close> with keyword arguments: Python binds them to the parameters
  \<open>l_var\<close> and \<open>i_var\<close> and raises TypeError for any other keyword, before the body runs.
\<close>

definition leverages_kw ::
  "('g, 'r) libs \<Rightarrow> RiskMetrics \<Rightarrow> (string \<times> real) list \<Rightarrow> 'g
     \<Rightarrow> pyerror + ((real \<times> real) \<times> 'g)" where
  "leverages_kw L st kwargs g =
     (if list_all (\<lambda>k. k = ''l_var'' \<or> k = ''i_var'') (map fst kwargs)
      then leverages L st (map_of kwargs ''l_var'') (map_of kwargs ''i_var'') g
      else Inl TypeError)"

definition recommended_leverage ::
  "('g, 'r) libs \<Rightarrow> RiskMetrics \<Rightarrow> real \<Rightarrow> 'g \<Rightarrow> pyerror + (real \<times> 'g)" where
  "recommended_leverage L st time_horizon g =
     and_then (leverages_kw L st [(''time_horizon'', time_horizon)] g) (\<lambda>((l_lev, i_lev), g').
     Inr (if l_lev < i_lev then l_lev else i_lev, g'))"

subsection \<open>Concrete inputs\<close>

text \<open>
  A small deterministic instance of the libraries, on which the model can be run: both
  generators are counters, and the block-length estimate is one for a series that ends
  above its first sample and zero otherwise.
\<close>

definition demo_libs :: "(nat, nat) libs" where
  "demo_libs =
     \<lparr>py_randint = (\<lambda>g a b. (a + int g mod (b - a + 1), Suc g)),
      py_random = (\<lambda>g. (real ((g + 15) mod 16) / 16, Suc g)),
      RandomState = (\<lambda>seed. seed),
      randint = (\<lambda>r n. (r mod n, Suc r)),
      optimal_block_length =
        (\<lambda>x. case x of [] \<Rightarrow> Inl ValueError | a # xs \<Rightarrow> Inr (if a < last x then 1 else 0))\<rparr>"

text \<open>The series of the spec's first testable property.\<close>

definition example_series :: RiskMetrics where
  "example_series =
     \<lparr>pool_size = 5, df = [], notional = 1000,
      liquidation_series = [90, 85, 80, 75, 70],
      margin_series = [100, 100, 100, 100, 100],
      pnl_series = [0, - 5, - 10, - 15, - 20],
      liquidation = [], insolvency = []\<rparr>"

text \<open>The position of the spec's leverage example.\<close>

definition example_position :: RiskMetrics where
  "example_position =
     \<lparr>pool_size = 1, df = [], notional = 1000,
      liquidation_series = [70], margin_series = [100], pnl_series = [- 20],
      liquidation = [0.3], insolvency = [0.8]\<rparr>"

text \<open>A table of three rows.\<close>

definition example_table :: dataframe where
  "example_table =
     [(''liq'', [90, 85, 80]), (''margin'', [100, 100, 100]), (''pnl'', [0, - 5, - 10])]"

text \<open>A table of two rows, and the object that the constructor makes of it.\<close>

definition two_step_table :: dataframe where
  "two_step_table = [(''liq'', [90, 85]), (''margin'', [100, 100]), (''pnl'', [0, - 5])]"

definition two_step_position :: RiskMetrics where
  "two_step_position =
     \<lparr>pool_size = 2, df = two_step_table, notional = 1000,
      liquidation_series = [90, 85], margin_series = [100, 100], pnl_series = [0, - 5],
      liquidation = [0.10, 0.15], insolvency = [1, 0.95]\<rparr>"

section \<open>Properties\<close>

lemma and_then_Inl [simp]: "and_then (Inl e) f = Inl e"
  by (simp add: and_then_def)

lemma and_then_Inr [simp]: "and_then (Inr v) f = f v"
  by (simp add: and_then_def)

subsection \<open>Recommended leverage\<close>

text \<open>
  Claim C1 says that \<open>recommended_leverage\<close> returns the smaller of the two leverage
  bounds. The method passes the keyword \<open>time_horizon\<close> to \<open>leverages\<close>, which has no
  such parameter: every call ends in TypeError, whatever the object and the argument.
\<close>

theorem recommended_leverage_raises:
  "recommended_leverage L st time_horizon g = Inl TypeError"
  by (simp add: recommended_leverage_def leverages_kw_def)

subsection \<open>Derived series\<close>

text \<open>
  Claim C2: when the first margin is not zero and the three series have the same length,
  both derivation methods return, and at every index \<open>t\<close> the liquidation ratio is
  \<open>(margin[0] - liquidation[t]) / margin[0]\<close> and the insolvency ratio is
  \<open>(pnl[t] + margin[0]) / margin[0]\<close>.
\<close>

theorem derived_series:
  assumes "margin_series st = m0 # ms" and "m0 \<noteq> 0"
    and "length (liquidation_series st) = length (margin_series st)"
    and "length (pnl_series st) = length (margin_series st)"
  shows "\<exists>lq ins. liquidation_method st = Inr lq \<and> insolvency_method st = Inr ins
           \<and> length lq = length (margin_series st) \<and> length ins = length (margin_series st)
           \<and> (\<forall>t < length (margin_series st).
                 lq ! t = (m0 - liquidation_series st ! t) / m0
               \<and> ins ! t = (pnl_series st ! t + m0) / m0)"
  using assms by (simp add: liquidation_method_def insolvency_method_def)

text \<open>The literal series of the claim give the literal ratios of the claim.\<close>

theorem derived_series_witness:
  "liquidation_method example_series = Inr [0.10, 0.15, 0.20, 0.25, 0.30]
   \<and> insolvency_method example_series = Inr [1.00, 0.95, 0.90, 0.85, 0.80]"
proof -
  have m: "margin_series example_series = 100 # [100, 100, 100, 100]"
    by (simp add: example_series_def)
  have l: "length (liquidation_series example_series) = length (margin_series example_series)"
    by (simp add: example_series_def)
  have p: "length (pnl_series example_series) = length (margin_series example_series)"
    by (simp add: example_series_def)
  from derived_series [OF m _ l p]
  obtain lq ins where "liquidation_method example_series = Inr lq"
      "insolvency_method example_series = Inr ins" by auto
  then show ?thesis
    by (simp add: liquidation_method_def insolvency_method_def example_series_def)
qed

subsection \<open>Leverage conversion\<close>

text \<open>
  Claim C3: given both estimates, a first liquidation value and a last PnL value that are
  not zero, \<open>leverages\<close> returns \<open>notional * (1 - LVaR) / liquidation_series[0]\<close> and
  \<open>notional * (IVaR - 1) / pnl_series[-1]\<close>, with the two different signs.
\<close>

theorem leverages_value:
  assumes "liquidation_series st = l0 # ls" and "l0 \<noteq> 0"
    and "pnl_series st \<noteq> []" and "last (pnl_series st) \<noteq> 0"
  shows "leverages L st (Some l_var) (Some i_var) g =
           Inr ((notional st * (1 - l_var) / l0,
                 notional st * (i_var - 1) / last (pnl_series st)), g)"
  using assms by (simp add: leverages_def)

theorem leverages_value_witness:
  "leverages demo_libs example_position (Some 0.05) (Some 0.9) 0 = Inr ((95 / 7, 5), 0)"
proof -
  have a: "liquidation_series example_position = 70 # []" by (simp add: example_position_def)
  have b: "pnl_series example_position \<noteq> []" by (simp add: example_position_def)
  show ?thesis
    using leverages_value [OF a _ b, of demo_libs "0.05" "0.9" 0]
    by (simp add: example_position_def)
qed

subsection \<open>Value at risk\<close>

lemma std_nonneg: "std xs = Inr s \<Longrightarrow> 0 \<le> s"
  by (auto simp: std_def Let_def split: if_splits intro!: divide_nonneg_nonneg sum_list_nonneg)

text \<open>
  Claim C4: on replicate sets whose mean distributions have mean \<open>mu\<close> and population
  standard deviation \<open>sigma\<close>, \<open>lvar_and_ivar\<close> returns \<open>mu - 1.96 * sigma\<close> at confidence
  95 and \<open>mu - 2.58 * sigma\<close> at confidence 99, for the liquidation and for the insolvency
  side, and the estimate at 99 is never above the estimate at 95.
\<close>

theorem var_monotone:
  assumes "means l_rep = Inr l_dist" and "mean l_dist = Inr l_mu" and "std l_dist = Inr l_sig"
    and "means i_rep = Inr i_dist" and "mean i_dist = Inr i_mu" and "std i_dist = Inr i_sig"
  shows "\<exists>l95 i95 l99 i99.
           lvar_and_ivar L st 95 (Some l_rep) (Some i_rep) g = Inr ((l95, i95), g)
         \<and> lvar_and_ivar L st 99 (Some l_rep) (Some i_rep) g = Inr ((l99, i99), g)
         \<and> l95 = l_mu - 1.96 * l_sig \<and> i95 = i_mu - 1.96 * i_sig
         \<and> l99 = l_mu - 2.58 * l_sig \<and> i99 = i_mu - 2.58 * i_sig
         \<and> l99 \<le> l95 \<and> i99 \<le> i95"
proof -
  have "0 \<le> l_sig" and "0 \<le> i_sig"
    using assms(3,6) by (auto dest: std_nonneg)
  then show ?thesis
    using assms by (simp add: lvar_and_ivar_def z_scores_def)
qed

text \<open>Two distributions with standard deviations 1 and 2.\<close>

theorem var_monotone_witness:
  "lvar_and_ivar demo_libs example_position 95 (Some [[1], [3]]) (Some [[0, 2], [4, 6]]) 0
     = Inr ((2 - 1.96 * 1, 3 - 1.96 * 2), 0)
   \<and> lvar_and_ivar demo_libs example_position 99 (Some [[1], [3]]) (Some [[0, 2], [4, 6]]) 0
     = Inr ((2 - 2.58 * 1, 3 - 2.58 * 2), 0)
   \<and> std [1, 3] = Inr 1 \<and> std [1, 5] = Inr 2"
proof -
  have a: "means [[1], [3]] = Inr [1, 3]" by (simp add: mean_def)
  have b: "mean [1, 3] = Inr 2" by (simp add: mean_def)
  have c: "std [1, 3] = Inr 1" by (simp add: std_def)
  have d: "means [[0, 2], [4, 6]] = Inr [1, 5]" by (simp add: mean_def)
  have e: "mean [1, 5] = Inr 3" by (simp add: mean_def)
  have f: "std [1, 5] = Inr 2" by (simp add: std_def)
  show ?thesis
    using var_monotone [OF a b c d e f, of demo_libs example_position 0] c f by auto
qed

text \<open>
  Claim C5: a confidence level other than 95 and 99 is not a key of the table of
  z-scores; \<open>lvar_and_ivar\<close> raises KeyError before it does anything else.
\<close>

theorem unsupported_alpha_raises:
  "alpha \<noteq> 95 \<Longrightarrow> alpha \<noteq> 99 \<Longrightarrow> lvar_and_ivar L st alpha l_rep i_rep g = Inl KeyError"
  by (simp add: lvar_and_ivar_def z_scores_def)

theorem unsupported_alpha_raises_witness:
  "lvar_and_ivar demo_libs example_position 90 None None 0 = Inl KeyError"
  using unsupported_alpha_raises [of 90 demo_libs example_position None None 0] by simp

subsection \<open>Replicates\<close>

text \<open>One step of the bootstrapper's loop, and its end.\<close>

lemma grow_step:
  "length rep < length x \<Longrightarrow> 0 < B \<Longrightarrow> randint L r (length x) = (s, r1)
     \<Longrightarrow> grow L x B rep r = grow L x B (rep @ block x B s) r1"
  by (subst grow.simps) simp

lemma grow_done:
  "length x \<le> length rep \<Longrightarrow> grow L x B rep r = (take (length x) rep, r)"
  by (subst grow.simps) simp

lemma block_subset: "x \<noteq> [] \<Longrightarrow> set (block x B s) \<subseteq> set x"
  by (auto simp: block_def)

text \<open>A replicate is as long as the series and holds samples of the series only.\<close>

lemma grow_length: "0 < B \<Longrightarrow> length (fst (grow L x B rep r)) = length x"
proof (induction L x B rep r rule: grow.induct)
  case (1 L x B rep r)
  show ?case
  proof (cases "length rep < length x")
    case True
    obtain s r1 where d: "randint L r (length x) = (s, r1)"
      by (cases "randint L r (length x)")
    from True \<open>0 < B\<close> d have "grow L x B rep r = grow L x B (rep @ block x B s) r1"
      by (rule grow_step)
    moreover have "length (fst (grow L x B (rep @ block x B s) r1)) = length x"
      using True \<open>0 < B\<close> d by (intro "1.IH") auto
    ultimately show ?thesis by simp
  next
    case False
    then show ?thesis by (simp add: grow_done)
  qed
qed

lemma grow_subset: "set rep \<subseteq> set x \<Longrightarrow> set (fst (grow L x B rep r)) \<subseteq> set x"
proof (induction L x B rep r rule: grow.induct)
  case (1 L x B rep r)
  show ?case
  proof (cases "length rep < length x \<and> 0 < B")
    case True
    obtain s r1 where d: "randint L r (length x) = (s, r1)"
      by (cases "randint L r (length x)")
    from True d have "grow L x B rep r = grow L x B (rep @ block x B s) r1"
      by (intro grow_step) auto
    moreover have "x \<noteq> []" using True by auto
    then have "set (rep @ block x B s) \<subseteq> set x"
      using "1.prems" block_subset [of x B s] by auto
    then have "set (fst (grow L x B (rep @ block x B s) r1)) \<subseteq> set x"
      using True d by (intro "1.IH") auto
    ultimately show ?thesis by simp
  next
    case False
    then have "grow L x B rep r = (take (length x) rep, r)"
      by (subst grow.simps) auto
    with "1.prems" show ?thesis
      by (auto dest: in_set_takeD)
  qed
qed

text \<open>With a block size of at least one the bootstrapper returns its replicates.\<close>

lemma bootstrap_returns:
  "1 \<le> B \<Longrightarrow> \<exists>reps r'. bootstrap L B x N r = Inr (reps, r')"
proof (induction N arbitrary: r)
  case 0
  show ?case by simp
next
  case (Suc N)
  obtain rep r1 where g: "grow L x (nat B) [] r = (rep, r1)"
    by (cases "grow L x (nat B) [] r")
  from Suc obtain reps r' where "bootstrap L B x N r1 = Inr (reps, r')" by blast
  with Suc.prems g show ?case by (simp add: resample_def)
qed

lemma bootstrap_shape:
  "1 \<le> B \<Longrightarrow> bootstrap L B x N r = Inr (reps, r')
     \<Longrightarrow> length reps = N \<and> (\<forall>rep \<in> set reps. length rep = length x \<and> set rep \<subseteq> set x)"
proof (induction N arbitrary: r reps r')
  case 0
  then show ?case by simp
next
  case (Suc N)
  obtain rep r1 where g: "grow L x (nat B) [] r = (rep, r1)"
    by (cases "grow L x (nat B) [] r")
  obtain rest r2 where b: "bootstrap L B x N r1 = Inr (rest, r2)"
    using bootstrap_returns [OF Suc.prems(1), of L x N r1] by auto
  from Suc.prems g b have reps: "reps = rep # rest"
    by (simp add: resample_def)
  have "length rep = length x"
    using grow_length [of "nat B" L x "[]" r] Suc.prems(1) g by simp
  moreover have "set rep \<subseteq> set x"
    using grow_subset [of "[]" x L "nat B" r] g by simp
  moreover note Suc.IH [OF Suc.prems(1) b]
  ultimately show ?case using reps by simp
qed

lemma bootstrap_numeral:
  "bootstrap L B x (numeral k) r =
     and_then (resample L B x r) (\<lambda>(rep, r1).
     and_then (bootstrap L B x (pred_numeral k) r1) (\<lambda>(rest, r2).
     Inr (rep # rest, r2)))"
  by (simp add: numeral_eq_Suc)

lemma demo_libs_simps:
  "py_randint demo_libs g a b = (a + int g mod (b - a + 1), Suc g)"
  "py_random demo_libs g = (real ((g + 15) mod 16) / 16, Suc g)"
  "RandomState demo_libs seed = seed"
  "randint demo_libs r n = (r mod n, Suc r)"
  "optimal_block_length demo_libs (x # xs) = Inr (if x < last (x # xs) then 1 else 0)"
  by (simp_all add: demo_libs_def)

lemmas demo_eval = demo_libs_simps get_random_def pow10_def block_size_def py_int_def

lemmas run_bootstrap = resample_def bootstrap_numeral grow.simps block_def upt_rec
  numeral_2_eq_2 [symmetric]

text \<open>The two-step position is what the constructor makes of the two-step table.\<close>

lemma init_two_step:
  "init two_step_table 1000 ''liq'' ''margin'' ''pnl'' None = Inr two_step_position"
  by (simp add: init_def two_step_table_def two_step_position_def df_getitem_def df_len_def
      liquidation_method_def insolvency_method_def)

text \<open>
  Claim C6 says that two independent calls give the same replicate sets. The generator
  of the bootstrap is seeded, but the jitter is drawn from Python's global generator,
  which the call does not seed. A second call on the same object finds that generator
  where the first call left it (state 8 here), adds other offsets to the series, and
  returns replicates with other values.
\<close>

theorem generate_replicates_not_reproducible:
  "generate_replicates demo_libs two_step_position 1 0
     = Inr (([[100001 / 1000000, 12017 / 80000]], [[15207 / 16000, 4000013 / 4000000]]), 8)
   \<and> generate_replicates demo_libs two_step_position 1 8
     = Inr (([[200011 / 2000000, 12053 / 80000]], [[76071 / 80000, 4000031 / 4000000]]), 16)
   \<and> [[100001 / 1000000, 12017 / 80000 :: real]] \<noteq> [[200011 / 2000000, 12053 / 80000]]"
  by (simp add: generate_replicates_def two_step_position_def demo_eval run_bootstrap)

text \<open>
  Claim C6, amended: the jitter is part of what has to be fixed. Two calls, on any two
  objects and at any two states of the global generator, whose jittered series are the
  same, whose block sizes are at least one and which ask for the same number \<open>N\<close> of
  replicates, both return, and return the same two replicate sets. The sets are those
  of the circular block bootstrap started from \<open>RandomState(42)\<close>, the insolvency
  bootstrap going on where the liquidation bootstrap stopped; each set has \<open>N\<close>
  replicates, each replicate is as long as its series and holds samples of it only.
\<close>

theorem bootstrap_reproducible:
  assumes j: "jitter L (liquidation st) g = (liq, g1)" "jitter L (insolvency st) g1 = (ins, g2)"
    and j': "jitter L (liquidation st') g' = (liq, g1')"
      "jitter L (insolvency st') g1' = (ins, g2')"
    and bl: "optimal_block_length L liq = Inr td_l" "1 \<le> block_size td_l"
    and bi: "optimal_block_length L ins = Inr td_i" "1 \<le> block_size td_i"
  shows "\<exists>l_rep i_rep rs1 rs2.
           bootstrap L (block_size td_l) liq N (RandomState L 42) = Inr (l_rep, rs1)
         \<and> bootstrap L (block_size td_i) ins N rs1 = Inr (i_rep, rs2)
         \<and> generate_replicates L st N g = Inr ((l_rep, i_rep), g2)
         \<and> generate_replicates L st' N g' = Inr ((l_rep, i_rep), g2')
         \<and> length l_rep = N \<and> length i_rep = N
         \<and> (\<forall>rep \<in> set l_rep. length rep = length liq \<and> set rep \<subseteq> set liq)
         \<and> (\<forall>rep \<in> set i_rep. length rep = length ins \<and> set rep \<subseteq> set ins)"
proof -
  obtain l_rep rs1 where l: "bootstrap L (block_size td_l) liq N (RandomState L 42) = Inr (l_rep, rs1)"
    using bootstrap_returns [OF bl(2), of L liq N "RandomState L 42"] by auto
  obtain i_rep rs2 where i: "bootstrap L (block_size td_i) ins N rs1 = Inr (i_rep, rs2)"
    using bootstrap_returns [OF bi(2), of L ins N rs1] by auto
  have "generate_replicates L st N g = Inr ((l_rep, i_rep), g2)"
    using j bl(1) bi(1) l i by (simp add: generate_replicates_def)
  moreover have "generate_replicates L st' N g' = Inr ((l_rep, i_rep), g2')"
    using j' bl(1) bi(1) l i by (simp add: generate_replicates_def)
  moreover note bootstrap_shape [OF bl(2) l] bootstrap_shape [OF bi(2) i]
  ultimately show ?thesis using l i by blast
qed

text \<open>
  Two calls at the states 0 and 16 of the global generator, where the demonstration
  generator repeats its offsets: both return the same two sets of two replicates.
\<close>

theorem bootstrap_reproducible_witness:
  "generate_replicates demo_libs two_step_position 2 0
     = Inr (([[100001 / 1000000, 12017 / 80000], [12017 / 80000, 100001 / 1000000]],
             [[4000013 / 4000000, 15207 / 16000], [4000013 / 4000000, 15207 / 16000]]), 8)
   \<and> generate_replicates demo_libs two_step_position 2 16
     = Inr (([[100001 / 1000000, 12017 / 80000], [12017 / 80000, 100001 / 1000000]],
             [[4000013 / 4000000, 15207 / 16000], [4000013 / 4000000, 15207 / 16000]]), 24)"
proof -
  have a: "jitter demo_libs (liquidation two_step_position) 0
             = ([100001 / 1000000, 12017 / 80000], 4)"
    by (simp add: two_step_position_def demo_eval)
  have b: "jitter demo_libs (insolvency two_step_position) 4
             = ([4000013 / 4000000, 15207 / 16000], 8)"
    by (simp add: two_step_position_def demo_eval)
  have c: "jitter demo_libs (liquidation two_step_position) 16
             = ([100001 / 1000000, 12017 / 80000], 20)"
    by (simp add: two_step_position_def demo_eval)
  have d: "jitter demo_libs (insolvency two_step_position) 20
             = ([4000013 / 4000000, 15207 / 16000], 24)"
    by (simp add: two_step_position_def demo_eval)
  have ol: "optimal_block_length demo_libs [100001 / 1000000, 12017 / 80000] = Inr 1"
    by (simp add: demo_eval)
  have oi: "optimal_block_length demo_libs [4000013 / 4000000, 15207 / 16000] = Inr 0"
    by (simp add: demo_eval)
  have sl: "1 \<le> block_size 1" and si: "1 \<le> block_size 0"
    by (simp_all add: block_size_def py_int_def)
  have l: "bootstrap demo_libs (block_size 1) [100001 / 1000000, 12017 / 80000] 2
             (RandomState demo_libs 42)
             = Inr ([[100001 / 1000000, 12017 / 80000], [12017 / 80000, 100001 / 1000000]], 44)"
    by (simp add: demo_eval run_bootstrap)
  have i: "bootstrap demo_libs (block_size 0) [4000013 / 4000000, 15207 / 16000] 2 44
             = Inr ([[4000013 / 4000000, 15207 / 16000], [4000013 / 4000000, 15207 / 16000]], 48)"
    by (simp add: demo_eval run_bootstrap)
  from bootstrap_reproducible [OF a b c d ol sl oi si, of 2] l i
  show ?thesis by auto
qed

subsection \<open>Block length\<close>

text \<open>
  Claim C7 promises a block size of at least one for every estimate, negative ones
  included. At the estimate \<open>-2\<close> the block size is \<open>-1\<close>.
\<close>

theorem block_size_negative_estimate: "\<not> 1 \<le> block_size (- 2)"
  by (simp add: block_size_def py_int_def)

text \<open>
  Claim C7, amended: for every estimate above \<open>-1\<close>, so for every estimate that is not
  negative, the block size \<open>int(estimate) + 1\<close> is at least one.
\<close>

theorem block_size_positive: "- 1 < x \<Longrightarrow> 1 \<le> block_size x"
  unfolding block_size_def py_int_def by (auto simp: le_floor_iff)

theorem block_size_positive_witness: "(- 1 :: real) < 0 \<and> 1 \<le> block_size 0"
  using block_size_positive [of 0] by simp

subsection \<open>Jitter offsets\<close>

text \<open>
  Claim C8 bounds every offset by \<open>9e-3\<close>. With the exponent \<open>-2\<close> and the uniform draw
  \<open>15/16\<close> the offset is \<open>0.0094375\<close>.
\<close>

theorem get_random_above_9e3:
  "py_randint demo_libs 15 (- 5) (- 2) = (- 2, 16) \<and> py_random demo_libs 16 = (15 / 16, 17)
   \<and> \<not> fst (get_random demo_libs 15) \<le> 9 / 10 ^ 3"
  by (simp add: get_random_def demo_libs_def pow10_def)

text \<open>
  Claim C8, amended: for an exponent drawn in \<open>[-5, -2]\<close> and a uniform draw in
  \<open>[0, 1)\<close>, the offset is strictly positive, at least \<open>1e-6\<close> and below \<open>1e-2\<close>.
\<close>

theorem get_random_range:
  assumes "py_randint L g (- 5) (- 2) = (e, g1)" and "- 5 \<le> e" and "e \<le> - 2"
    and "py_random L g1 = (u, g2)" and "0 \<le> u" and "u < 1"
  shows "0 < fst (get_random L g) \<and> 1 / 10 ^ 6 \<le> fst (get_random L g)
         \<and> fst (get_random L g) < 1 / 10 ^ 2"
proof -
  from assms(2,3) have "e = - 5 \<or> e = - 4 \<or> e = - 3 \<or> e = - 2" by arith
  then show ?thesis
    using assms(1,4,5,6) by (auto simp: get_random_def pow10_def)
qed

theorem get_random_range_witness:
  "0 < fst (get_random demo_libs 15) \<and> 1 / 10 ^ 6 \<le> fst (get_random demo_libs 15)
         \<and> fst (get_random demo_libs 15) < 1 / 10 ^ 2"
proof -
  have a: "py_randint demo_libs 15 (- 5) (- 2) = (- 2, 16)" by (simp add: demo_libs_def)
  have b: "py_random demo_libs 16 = (15 / 16, 17)" by (simp add: demo_libs_def)
  show ?thesis using get_random_range [OF a _ _ b] by simp
qed

subsection \<open>The constructor\<close>

text \<open>
  Claim C9 says that a given pool size cuts the three series down to their first
  \<open>pool_size\<close> entries. The constructor cuts \<open>self.df\<close> and then reads the three series
  from the argument \<open>df\<close>: with a table of three rows and a pool size of two, each of the
  three series keeps its three entries.
\<close>

theorem init_keeps_full_series:
  "\<exists>st. init example_table 1000 ''liq'' ''margin'' ''pnl'' (Some 2) = Inr st
     \<and> pool_size st = 2
     \<and> liquidation_series st = [90, 85, 80] \<and> margin_series st = [100, 100, 100]
     \<and> pnl_series st = [0, - 5, - 10]
     \<and> liquidation_series st \<noteq> take 2 [90, 85, 80]"
  by (simp add: init_def example_table_def df_getitem_def df_iloc_to_def
      liquidation_method_def insolvency_method_def)

end
